theory Spec2Isabelle
  imports Complex_Main "HOL-Library.Sublist"
begin

section \<open>JavaScript values\<close>

text \<open>
  The dashboard of \<^verbatim>\<open>src/App.js\<close> computes with JavaScript numbers and strings.
  A number is modelled as an exact real extended with the three non-finite values of
  IEEE-754: \<open>Fin x\<close> carries the mathematical value \<open>x\<close>, so neither the rounding of
  binary64 nor its overflow to \<open>Infinity\<close> nor the sign of zero is part of the model.
  Where a property depends on the rounding, the operations are taken with the rounding
  of binary64 (\<open>round64\<close> below).
  The special values follow the IEEE rules that JavaScript uses: \<open>NaN\<close> is absorbing,
  \<open>Infinity - Infinity\<close> and \<open>0 * Infinity\<close> are \<open>NaN\<close>.

  A string is the list of the bytes of its UTF-8 encoding; for ASCII text that is the
  list of its characters.
\<close>

datatype jsnum = Fin real | PInf | NInf | NaN

datatype jsval = JUndefined | JNull | JBool bool | JNum jsnum | JStr string

fun isFinite :: "jsnum \<Rightarrow> bool" where
  "isFinite (Fin x) = True"
| "isFinite PInf = False"
| "isFinite NInf = False"
| "isFinite NaN = False"

fun jadd :: "jsnum \<Rightarrow> jsnum \<Rightarrow> jsnum" where
  "jadd NaN y = NaN"
| "jadd x NaN = NaN"
| "jadd (Fin a) (Fin b) = Fin (a + b)"
| "jadd (Fin a) PInf = PInf"
| "jadd (Fin a) NInf = NInf"
| "jadd PInf (Fin b) = PInf"
| "jadd NInf (Fin b) = NInf"
| "jadd PInf PInf = PInf"
| "jadd NInf NInf = NInf"
| "jadd PInf NInf = NaN"
| "jadd NInf PInf = NaN"

text \<open>The product of an infinity with a finite factor takes the sign of the product;
  with the factor zero it is \<open>NaN\<close>.\<close>

definition inf_times :: "bool \<Rightarrow> real \<Rightarrow> jsnum" where
  "inf_times positive a =
     (if a = 0 then NaN else if (0 < a) = positive then PInf else NInf)"

fun jmul :: "jsnum \<Rightarrow> jsnum \<Rightarrow> jsnum" where
  "jmul NaN y = NaN"
| "jmul x NaN = NaN"
| "jmul (Fin a) (Fin b) = Fin (a * b)"
| "jmul (Fin a) PInf = inf_times True a"
| "jmul (Fin a) NInf = inf_times False a"
| "jmul PInf (Fin b) = inf_times True b"
| "jmul NInf (Fin b) = inf_times False b"
| "jmul PInf PInf = PInf"
| "jmul NInf NInf = PInf"
| "jmul PInf NInf = NInf"
| "jmul NInf PInf = NInf"

text \<open>\<^verbatim>\<open>Math.exp\<close>.\<close>

fun jexp :: "jsnum \<Rightarrow> jsnum" where
  "jexp (Fin a) = Fin (exp a)"
| "jexp PInf = PInf"
| "jexp NInf = Fin 0"
| "jexp NaN = NaN"

section \<open>Conversion to a number\<close>

text \<open>
  \<^verbatim>\<open>Number(v)\<close> and the unary \<^verbatim>\<open>+v\<close> both apply the conversion \<open>ToNumber\<close> of
  the language. On a string it trims white space and line terminators, reads the empty
  text as 0, and otherwise reads a decimal literal with an optional sign
  (\<^verbatim>\<open>12\<close>, \<^verbatim>\<open>-1.5\<close>, \<^verbatim>\<open>.5e-3\<close>, \<^verbatim>\<open>Infinity\<close>) or an unsigned binary, octal or
  hexadecimal integer (\<^verbatim>\<open>0b101\<close>, \<^verbatim>\<open>0o17\<close>, \<^verbatim>\<open>0xff\<close>); every other text is
  \<open>NaN\<close>. The value of a literal is its exact decimal value.
\<close>

definition white_space :: "string list" where
  "white_space =
     [[CHR 0x09], [CHR 0x0A], [CHR 0x0B], [CHR 0x0C], [CHR 0x0D], [CHR 0x20],
      [CHR 0xC2, CHR 0xA0],
      [CHR 0xE1, CHR 0x9A, CHR 0x80],
      [CHR 0xE2, CHR 0x80, CHR 0x80], [CHR 0xE2, CHR 0x80, CHR 0x81],
      [CHR 0xE2, CHR 0x80, CHR 0x82], [CHR 0xE2, CHR 0x80, CHR 0x83],
      [CHR 0xE2, CHR 0x80, CHR 0x84], [CHR 0xE2, CHR 0x80, CHR 0x85],
      [CHR 0xE2, CHR 0x80, CHR 0x86], [CHR 0xE2, CHR 0x80, CHR 0x87],
      [CHR 0xE2, CHR 0x80, CHR 0x88], [CHR 0xE2, CHR 0x80, CHR 0x89],
      [CHR 0xE2, CHR 0x80, CHR 0x8A],
      [CHR 0xE2, CHR 0x80, CHR 0xA8], [CHR 0xE2, CHR 0x80, CHR 0xA9],
      [CHR 0xE2, CHR 0x80, CHR 0xAF],
      [CHR 0xE2, CHR 0x81, CHR 0x9F],
      [CHR 0xE3, CHR 0x80, CHR 0x80],
      [CHR 0xEF, CHR 0xBB, CHR 0xBF]]"

function strip_leading :: "string list \<Rightarrow> string \<Rightarrow> string" where
  "strip_leading ws s =
     (case find (\<lambda>w. w \<noteq> [] \<and> prefix w s) ws of
        None \<Rightarrow> s
      | Some w \<Rightarrow> strip_leading ws (drop (length w) s))"
  by pat_completeness auto
termination
proof (relation "measure (\<lambda>(ws, s). length s)")
  show "wf (measure (\<lambda>(ws, s). length s))" by simp
next
  fix ws :: "string list" and s w :: string
  assume "find (\<lambda>w. w \<noteq> [] \<and> prefix w s) ws = Some w"
  then have "w \<noteq> [] \<and> prefix w s" by (auto simp: find_Some_iff)
  then show "((ws, drop (length w) s), (ws, s)) \<in> measure (\<lambda>(ws, s). length s)"
    by (cases s) (auto simp: prefix_def)
qed

declare strip_leading.simps [simp del]

definition trim :: "string \<Rightarrow> string" where
  "trim s = rev (strip_leading (map rev white_space) (rev (strip_leading white_space s)))"

definition digit_value :: "char \<Rightarrow> nat option" where
  "digit_value c =
     (let n = (of_char c :: nat) in
      if 48 \<le> n \<and> n \<le> 57 then Some (n - 48)
      else if 97 \<le> n \<and> n \<le> 102 then Some (n - 87)
      else if 65 \<le> n \<and> n \<le> 70 then Some (n - 55)
      else None)"

definition is_digit :: "char \<Rightarrow> bool" where
  "is_digit c \<longleftrightarrow> (48::nat) \<le> of_char c \<and> of_char c \<le> (57::nat)"

fun radix_value :: "nat \<Rightarrow> nat \<Rightarrow> string \<Rightarrow> nat option" where
  "radix_value b acc [] = Some acc"
| "radix_value b acc (c # cs) =
     (case digit_value c of
        None \<Rightarrow> None
      | Some v \<Rightarrow> if v < b then radix_value b (acc * b + v) cs else None)"

text \<open>A non-empty run of digits of the base, and nothing else.\<close>

definition digits_in_base :: "nat \<Rightarrow> string \<Rightarrow> nat option" where
  "digits_in_base b s = (if s = [] then None else radix_value b 0 s)"

definition scale10 :: "nat \<Rightarrow> int \<Rightarrow> real" where
  "scale10 m k = (if 0 \<le> k then real m * 10 ^ nat k else real m / 10 ^ nat (- k))"

definition exponent_part :: "string \<Rightarrow> int option" where
  "exponent_part s =
     (case s of
        [] \<Rightarrow> Some 0
      | c # r \<Rightarrow>
          if c = CHR ''e'' \<or> c = CHR ''E'' then
            (case r of
               [] \<Rightarrow> None
             | d # ds \<Rightarrow>
                 if d = CHR ''+'' then map_option int (digits_in_base 10 ds)
                 else if d = CHR ''-'' then map_option (\<lambda>n. - int n) (digits_in_base 10 ds)
                 else map_option int (digits_in_base 10 r))
          else None)"

definition unsigned_decimal :: "string \<Rightarrow> jsnum option" where
  "unsigned_decimal s =
     (if s = ''Infinity'' then Some PInf
      else
        let ip = takeWhile is_digit s; r1 = dropWhile is_digit s in
        (case r1 of
           [] \<Rightarrow> map_option (\<lambda>n. Fin (real n)) (digits_in_base 10 ip)
         | c # r2 \<Rightarrow>
             if c = CHR ''.'' then
               (let fp = takeWhile is_digit r2; r3 = dropWhile is_digit r2 in
                case (digits_in_base 10 (ip @ fp), exponent_part r3) of
                  (Some n, Some e) \<Rightarrow> Some (Fin (scale10 n (e - int (length fp))))
                | _ \<Rightarrow> None)
             else
               (case (digits_in_base 10 ip, exponent_part r1) of
                  (Some n, Some e) \<Rightarrow> Some (Fin (scale10 n e))
                | _ \<Rightarrow> None)))"

fun jneg :: "jsnum \<Rightarrow> jsnum" where
  "jneg (Fin a) = Fin (- a)"
| "jneg PInf = NInf"
| "jneg NInf = PInf"
| "jneg NaN = NaN"

definition non_decimal :: "string \<Rightarrow> jsnum option option" where
  "non_decimal s =
     (case s of
        z # x # ds \<Rightarrow>
          if z = CHR ''0'' \<and> (x = CHR ''x'' \<or> x = CHR ''X'') then
            Some (map_option (\<lambda>n. Fin (real n)) (digits_in_base 16 ds))
          else if z = CHR ''0'' \<and> (x = CHR ''o'' \<or> x = CHR ''O'') then
            Some (map_option (\<lambda>n. Fin (real n)) (digits_in_base 8 ds))
          else if z = CHR ''0'' \<and> (x = CHR ''b'' \<or> x = CHR ''B'') then
            Some (map_option (\<lambda>n. Fin (real n)) (digits_in_base 2 ds))
          else None
      | _ \<Rightarrow> None)"

definition numeric_literal :: "string \<Rightarrow> jsnum option" where
  "numeric_literal s =
     (case non_decimal s of
        Some r \<Rightarrow> r
      | None \<Rightarrow>
          (case s of
             [] \<Rightarrow> None
           | c # r \<Rightarrow>
               if c = CHR ''+'' then unsigned_decimal r
               else if c = CHR ''-'' then map_option jneg (unsigned_decimal r)
               else unsigned_decimal s))"

definition StringToNumber :: "string \<Rightarrow> jsnum" where
  "StringToNumber s =
     (let t = trim s in
      if t = [] then Fin 0
      else case numeric_literal t of None \<Rightarrow> NaN | Some v \<Rightarrow> v)"

fun ToNumber :: "jsval \<Rightarrow> jsnum" where
  "ToNumber JUndefined = NaN"
| "ToNumber JNull = Fin 0"
| "ToNumber (JBool b) = Fin (if b then 1 else 0)"
| "ToNumber (JNum n) = n"
| "ToNumber (JStr s) = StringToNumber s"

section \<open>The coefficient store\<close>

text \<open>
  \<^verbatim>\<open>useCoefficients\<close> (lines 26 to 38) starts from the empty object and, once the
  resource has been fetched and parsed, stores \<^verbatim>\<open>m[d.term] = +d.estimate\<close> for every
  record \<open>d\<close> of the array, in order. When the fetch or the parse fails the promise is
  rejected and the state stays the empty object. The hook returns the object and
  nothing else: there is no error value.

  The object is a map from term names to numbers. An assignment to the key
  \<^verbatim>\<open>__proto__\<close> of a plain object calls the setter of \<^verbatim>\<open>Object.prototype\<close>, which
  ignores a number, so that record creates no entry.
\<close>

record coef_record =
  term_name :: string
  estimate :: jsval

type_synonym coefficient_map = "string \<rightharpoonup> jsnum"

datatype coef_resource = Unavailable | Fetched "coef_record list"

definition store_estimate :: "coefficient_map \<Rightarrow> coef_record \<Rightarrow> coefficient_map" where
  "store_estimate m d =
     (if term_name d = ''__proto__'' then m
      else m(term_name d \<mapsto> ToNumber (estimate d)))"

definition useCoefficients :: "coef_resource \<Rightarrow> coefficient_map" where
  "useCoefficients r =
     (case r of
        Unavailable \<Rightarrow> Map.empty
      | Fetched arr \<Rightarrow> foldl store_estimate Map.empty arr)"

section \<open>The linear predictor\<close>

text \<open>
  \<^verbatim>\<open>coefs[k] || 0\<close>: the operand on the left is returned unless it is falsy. A key
  that is absent reads as \<^verbatim>\<open>undefined\<close>; of the numbers, \<open>NaN\<close> and zero are
  falsy. None of the keys that the predictor reads is a property of
  \<^verbatim>\<open>Object.prototype\<close>, so the lookup is that of the map.
\<close>

definition or_zero :: "jsnum option \<Rightarrow> jsnum" where
  "or_zero v =
     (case v of
        None \<Rightarrow> Fin 0
      | Some x \<Rightarrow> if x = NaN \<or> x = Fin 0 then Fin 0 else x)"

text \<open>
  The body of \<^verbatim>\<open>predictedUSD\<close> (lines 63 to 73). \<open>age\<close> and \<open>rating\<close> are what the
  state holds: the number they start with, or the text of the input field.
  \<^verbatim>\<open>
    let eta = 0;
    eta += coefs["Intercept"] || 0;
    eta += (coefs["age"] || 0) * Number(age);
    eta += (coefs["overall_rating"] || 0) * Number(rating);
    eta += coefs[`position_group_${pg}`] || 0;
    eta += coefs[`preferred_foot_${foot}`] || 0;
    const wageEur = TARGET_IS_LOG ? Math.exp(eta) : eta;
    return wageEur * USD_PER_EUR;
  \<close>
\<close>

definition age_term :: "coefficient_map \<Rightarrow> jsval \<Rightarrow> jsnum" where
  "age_term coefs age = jmul (or_zero (coefs ''age'')) (ToNumber age)"

definition rating_term :: "coefficient_map \<Rightarrow> jsval \<Rightarrow> jsnum" where
  "rating_term coefs rating = jmul (or_zero (coefs ''overall_rating'')) (ToNumber rating)"

definition eta :: "coefficient_map \<Rightarrow> jsval \<Rightarrow> jsval \<Rightarrow> string \<Rightarrow> string \<Rightarrow> jsnum" where
  "eta coefs age rating pg foot =
     (let e0 = Fin 0;
          e1 = jadd e0 (or_zero (coefs ''Intercept''));
          e2 = jadd e1 (age_term coefs age);
          e3 = jadd e2 (rating_term coefs rating);
          e4 = jadd e3 (or_zero (coefs (''position_group_'' @ pg)));
          e5 = jadd e4 (or_zero (coefs (''preferred_foot_'' @ foot)))
      in e5)"

definition predict ::
  "bool \<Rightarrow> jsnum \<Rightarrow> coefficient_map \<Rightarrow> jsval \<Rightarrow> jsval \<Rightarrow> string \<Rightarrow> string \<Rightarrow> jsnum" where
  "predict targetIsLog currencyRate coefs age rating pg foot =
     (let e = eta coefs age rating pg foot;
          wageEur = (if targetIsLog then jexp e else e)
      in jmul wageEur currencyRate)"

definition TARGET_IS_LOG :: bool where
  "TARGET_IS_LOG = True"

definition USD_PER_EUR :: jsnum where
  "USD_PER_EUR = Fin (108 / 100)"

definition predictedUSD :: "coefficient_map \<Rightarrow> jsval \<Rightarrow> jsval \<Rightarrow> string \<Rightarrow> string \<Rightarrow> jsnum" where
  "predictedUSD coefs age rating pg foot =
     predict TARGET_IS_LOG USD_PER_EUR coefs age rating pg foot"

section \<open>The category deriver\<close>

text \<open>
  \<^verbatim>\<open>indexof(s, sub)\<close> of the chart expression language on two strings is
  \<^verbatim>\<open>String.prototype.indexOf\<close>: the least position at which \<open>sub\<close> starts in
  \<open>s\<close>, or \<open>-1\<close> when there is none.
\<close>

fun indexof :: "string \<Rightarrow> string \<Rightarrow> int" where
  "indexof [] sub = (if sub = [] then 0 else - 1)"
| "indexof (c # cs) sub =
     (if prefix sub (c # cs) then 0
      else (let r = indexof cs sub in if r < 0 then - 1 else r + 1))"

text \<open>
  The expression \<^verbatim>\<open>calcGroupExpr\<close> (lines 76 to 82), as a function of the text in
  \<^verbatim>\<open>datum.positions\<close>:
  \<^verbatim>\<open>
  indexof(datum.positions,'GK')>=0 ? 'Goalkeeper' :
   (indexof(datum.positions,'CB')>=0 || indexof(datum.positions,'LB')>=0 ||
    indexof(datum.positions,'RB')>=0 || indexof(datum.positions,'RWB')>=0 ||
    indexof(datum.positions,'LWB')>=0) ? 'Defender' :
   (indexof(datum.positions,'CM')>=0 || indexof(datum.positions,'CDM')>=0 ||
    indexof(datum.positions,'CAM')>=0 || indexof(datum.positions,'RM')>=0 ||
    indexof(datum.positions,'LM')>=0 || indexof(datum.positions,'RW')>=0 ||
    indexof(datum.positions,'LW')>=0) ? 'Midfielder' : 'Forward'
  \<close>
\<close>

definition deriveGroup :: "string \<Rightarrow> string" where
  "deriveGroup p =
     (if indexof p ''GK'' \<ge> 0 then ''Goalkeeper''
      else if indexof p ''CB'' \<ge> 0 \<or> indexof p ''LB'' \<ge> 0 \<or> indexof p ''RB'' \<ge> 0
              \<or> indexof p ''RWB'' \<ge> 0 \<or> indexof p ''LWB'' \<ge> 0 then ''Defender''
      else if indexof p ''CM'' \<ge> 0 \<or> indexof p ''CDM'' \<ge> 0 \<or> indexof p ''CAM'' \<ge> 0
              \<or> indexof p ''RM'' \<ge> 0 \<or> indexof p ''LM'' \<ge> 0 \<or> indexof p ''RW'' \<ge> 0
              \<or> indexof p ''LW'' \<ge> 0 then ''Midfielder''
      else ''Forward'')"

section \<open>The display formatter\<close>

text \<open>
  \<^verbatim>\<open>x.toLocaleString("en-US", {style: "currency", currency: "USD",
  maximumFractionDigits: 0})\<close> rounds to an integer, a tie away from zero, writes
  its decimal digits in groups of three separated by commas after the dollar sign, and
  puts a minus sign in front of a negative number (also in front of one that rounds to
  zero). This is the behaviour of ECMA-402 from its 2023 edition on, where a maximum of
  0 fraction digits lowers the default minimum of 2; an engine of an earlier edition
  rejects these options with a \<^verbatim>\<open>RangeError\<close>, which is not modelled.
\<close>

definition digit_char :: "nat \<Rightarrow> char" where
  "digit_char k = ''0123456789'' ! k"

fun dec_digits :: "nat \<Rightarrow> string" where
  "dec_digits n =
     (if n < 10 then [digit_char n]
      else dec_digits (n div 10) @ [digit_char (n mod 10)])"

declare dec_digits.simps [simp del]

function group3 :: "string \<Rightarrow> string" where
  "group3 ds =
     (if length ds \<le> 3 then ds
      else group3 (take (length ds - 3) ds) @ '','' @ drop (length ds - 3) ds)"
  by pat_completeness auto
termination
  by (relation "measure length") auto

declare group3.simps [simp del]

definition round_half_expand :: "real \<Rightarrow> nat" where
  "round_half_expand x = nat \<lfloor>\<bar>x\<bar> + 1 / 2\<rfloor>"

fun toLocaleString_USD :: "jsnum \<Rightarrow> string" where
  "toLocaleString_USD (Fin x) =
     (if x < 0 then ''-'' else []) @ ''$'' @ group3 (dec_digits (round_half_expand x))"
| "toLocaleString_USD NaN = ''$NaN''"
| "toLocaleString_USD PInf = ''$'' @ [CHR 0xE2, CHR 0x88, CHR 0x9E]"
| "toLocaleString_USD NInf = ''-$'' @ [CHR 0xE2, CHR 0x88, CHR 0x9E]"

text \<open>The marker that \<^verbatim>\<open>fmtUSD\<close> returns for a value that is not finite: the
  em dash U+2014.\<close>

definition em_dash :: string where
  "em_dash = [CHR 0xE2, CHR 0x80, CHR 0x94]"

definition fmtUSD :: "jsnum \<Rightarrow> string" where
  "fmtUSD x = (if \<not> isFinite x then em_dash else toLocaleString_USD x)"

text \<open>What a formatted amount looks like: an optional minus sign, the dollar sign, and
  a non-empty text of digits and commas.\<close>

definition currency_text :: "string \<Rightarrow> bool" where
  "currency_text s \<longleftrightarrow>
     (let body = (if take 1 s = ''-'' then drop 1 s else s) in
      take 1 body = ''$'' \<and> drop 1 body \<noteq> [] \<and>
      list_all (\<lambda>c. is_digit c \<or> c = CHR '','') (drop 1 body))"

section \<open>The transform pipeline\<close>

text \<open>
  A row of the dataset has the two columns that the charts read. A
  \<^verbatim>\<open>calculate\<close> transform adds a field under the name given by \<^verbatim>\<open>as\<close>; a
  field that was never calculated reads as \<^verbatim>\<open>undefined\<close>.
\<close>

record datum =
  positions :: string
  wage_euro :: jsnum
  calculated :: "string \<rightharpoonup> jsval"

definition calcGroupExpr :: "datum \<Rightarrow> jsval" where
  "calcGroupExpr d = JStr (deriveGroup (positions d))"

text \<open>\<^verbatim>\<open>`${USD_PER_EUR} * datum.wage_euro`\<close>\<close>

definition wageUsdExpr :: "datum \<Rightarrow> jsval" where
  "wageUsdExpr d = JNum (jmul USD_PER_EUR (wage_euro d))"

definition field_of :: "datum \<Rightarrow> string \<Rightarrow> jsval" where
  "field_of d name = (case calculated d name of None \<Rightarrow> JUndefined | Some v \<Rightarrow> v)"

text \<open>The comparison \<^verbatim>\<open>==\<close> on the values of the model.\<close>

definition num_eq :: "jsnum \<Rightarrow> jsnum \<Rightarrow> bool" where
  "num_eq a b \<longleftrightarrow> a = b \<and> a \<noteq> NaN"

fun loose_eq :: "jsval \<Rightarrow> jsval \<Rightarrow> bool" where
  "loose_eq JUndefined y = (y = JUndefined \<or> y = JNull)"
| "loose_eq JNull y = (y = JUndefined \<or> y = JNull)"
| "loose_eq (JStr a) (JStr b) = (a = b)"
| "loose_eq (JStr a) JUndefined = False"
| "loose_eq (JStr a) JNull = False"
| "loose_eq (JStr a) y = num_eq (StringToNumber a) (ToNumber y)"
| "loose_eq x JUndefined = False"
| "loose_eq x JNull = False"
| "loose_eq x y = num_eq (ToNumber x) (ToNumber y)"

fun truthy :: "jsval \<Rightarrow> bool" where
  "truthy JUndefined = False"
| "truthy JNull = False"
| "truthy (JBool b) = b"
| "truthy (JNum n) = (n \<noteq> NaN \<and> n \<noteq> Fin 0)"
| "truthy (JStr s) = (s \<noteq> [])"

text \<open>
  \<^verbatim>\<open>posFilter === "All" ? "true" : `datum.group == '${posFilter}'`\<close> (lines 86
  and 87). The text between the quotes is the literal \<open>posFilter\<close> as long as it has
  no quote, backslash or line break in it, which holds for the options of the selector.
\<close>

definition literal_text :: "string \<Rightarrow> bool" where
  "literal_text s \<longleftrightarrow>
     list_all (\<lambda>c. c \<noteq> CHR 0x27 \<and> c \<noteq> CHR 0x5C \<and> c \<noteq> CHR 0x0A \<and> c \<noteq> CHR 0x0D) s
     \<and> \<not> sublist [CHR 0xE2, CHR 0x80, CHR 0xA8] s
     \<and> \<not> sublist [CHR 0xE2, CHR 0x80, CHR 0xA9] s"

definition filterExpr :: "string \<Rightarrow> datum \<Rightarrow> jsval" where
  "filterExpr posFilter =
     (if posFilter = ''All'' then (\<lambda>d. JBool True)
      else (\<lambda>d. JBool (loose_eq (field_of d ''group'') (JStr posFilter))))"

datatype transform = Calculate "datum \<Rightarrow> jsval" string | Filter "datum \<Rightarrow> jsval"

fun apply_transform :: "transform \<Rightarrow> datum list \<Rightarrow> datum list" where
  "apply_transform (Calculate e name) ds =
     map (\<lambda>d. d\<lparr>calculated := (calculated d)(name \<mapsto> e d)\<rparr>) ds"
| "apply_transform (Filter e) ds = filter (\<lambda>d. truthy (e d)) ds"

definition run_transforms :: "transform list \<Rightarrow> datum list \<Rightarrow> datum list" where
  "run_transforms ts ds = foldl (\<lambda>rows t. apply_transform t rows) ds ts"

text \<open>The chart descriptions: the data source, the transforms, the marks and the two
  position channels.\<close>

record channel =
  ch_field :: "string option"
  ch_type :: "string option"
  ch_maxbins :: "nat option"
  ch_aggregate :: "string option"

record vl_spec =
  data_url :: string
  transform :: "transform list"
  marks :: "string list"
  x_enc :: channel
  y_enc :: channel

definition WAGES_URL :: string where
  "WAGES_URL = ''/fifa_clean.csv''"

definition COEF_URL :: string where
  "COEF_URL = ''/model_coefficients.json''"

definition wageHistSpec :: "string \<Rightarrow> vl_spec" where
  "wageHistSpec posFilter =
     \<lparr>data_url = WAGES_URL,
      transform = [Calculate calcGroupExpr ''group'',
                   Calculate wageUsdExpr ''wage_usd'',
                   Filter (filterExpr posFilter)],
      marks = [''bar''],
      x_enc = \<lparr>ch_field = Some ''wage_usd'', ch_type = Some ''quantitative'',
               ch_maxbins = Some 30, ch_aggregate = None\<rparr>,
      y_enc = \<lparr>ch_field = None, ch_type = None, ch_maxbins = None,
               ch_aggregate = Some ''count''\<rparr>\<rparr>"

definition coefSpec :: vl_spec where
  "coefSpec =
     \<lparr>data_url = COEF_URL,
      transform = [],
      marks = [''bar'', ''rule''],
      x_enc = \<lparr>ch_field = Some ''estimate'', ch_type = Some ''quantitative'',
               ch_maxbins = None, ch_aggregate = None\<rparr>,
      y_enc = \<lparr>ch_field = Some ''term'', ch_type = Some ''nominal'',
               ch_maxbins = None, ch_aggregate = None\<rparr>\<rparr>"

definition boxSpec :: vl_spec where
  "boxSpec =
     \<lparr>data_url = WAGES_URL,
      transform = [Calculate calcGroupExpr ''group'',
                   Calculate wageUsdExpr ''wage_usd''],
      marks = [''boxplot''],
      x_enc = \<lparr>ch_field = Some ''group'', ch_type = Some ''nominal'',
               ch_maxbins = None, ch_aggregate = None\<rparr>,
      y_enc = \<lparr>ch_field = Some ''wage_usd'', ch_type = Some ''quantitative'',
               ch_maxbins = None, ch_aggregate = None\<rparr>\<rparr>"

section \<open>The component\<close>

text \<open>
  \<^verbatim>\<open>App\<close> (lines 50 to 259) holds the filter and the four inputs of the predictor
  as state, reads the coefficients, and renders three charts and the formatted
  prediction.
\<close>

record app_state =
  posFilter :: string
  age :: jsval
  rating :: jsval
  foot :: string
  pg :: string
  coefs :: coefficient_map

record app_view =
  hist_chart :: vl_spec
  coef_chart :: vl_spec
  box_chart :: vl_spec
  predicted_text :: string

definition initial_state :: app_state where
  "initial_state =
     \<lparr>posFilter = ''All'', age = JNum (Fin 24), rating = JNum (Fin 85),
      foot = ''Right'', pg = ''Midfielder'', coefs = Map.empty\<rparr>"

definition App :: "app_state \<Rightarrow> app_view" where
  "App st =
     \<lparr>hist_chart = wageHistSpec (posFilter st),
      coef_chart = coefSpec,
      box_chart = boxSpec,
      predicted_text =
        fmtUSD (predictedUSD (coefs st) (age st) (rating st) (pg st) (foot st))\<rparr>"

section \<open>Notions used to state the properties\<close>

text \<open>
  The formula of the specification for the linear predictor, in its own words: each
  coefficient is read from the map, and a term that is absent from the map contributes 0.
\<close>

definition absent_zero :: "coefficient_map \<Rightarrow> string \<Rightarrow> jsnum" where
  "absent_zero m k = (case m k of None \<Rightarrow> Fin 0 | Some v \<Rightarrow> v)"

definition spec_eta :: "coefficient_map \<Rightarrow> jsval \<Rightarrow> jsval \<Rightarrow> string \<Rightarrow> string \<Rightarrow> jsnum" where
  "spec_eta m a r g f =
     jadd (jadd (jadd (jadd (absent_zero m ''Intercept'')
                            (jmul (absent_zero m ''age'') (ToNumber a)))
                      (jmul (absent_zero m ''overall_rating'') (ToNumber r)))
                (absent_zero m (''position_group_'' @ g)))
          (absent_zero m (''preferred_foot_'' @ f))"

definition spec_predict ::
  "bool \<Rightarrow> jsnum \<Rightarrow> coefficient_map \<Rightarrow> jsval \<Rightarrow> jsval \<Rightarrow> string \<Rightarrow> string \<Rightarrow> jsnum" where
  "spec_predict targetIsLog currencyRate m a r g f =
     jmul (if targetIsLog then jexp (spec_eta m a r g f) else spec_eta m a r g f)
          currencyRate"

text \<open>The same reading of the map, except that an entry that holds \<open>NaN\<close> contributes 0
  as an absent one does.\<close>

definition absent_or_NaN_zero :: "coefficient_map \<Rightarrow> string \<Rightarrow> jsnum" where
  "absent_or_NaN_zero m k =
     (case m k of None \<Rightarrow> Fin 0 | Some v \<Rightarrow> if v = NaN then Fin 0 else v)"
















text \<open>The coefficients of the end-to-end scenario of the specification.\<close>

definition scenario_coefs :: coefficient_map where
  "scenario_coefs =
     [''Intercept'' \<mapsto> Fin 6,
      ''age'' \<mapsto> Fin (- 1 / 100),
      ''overall_rating'' \<mapsto> Fin (5 / 100),
      ''position_group_Midfielder'' \<mapsto> Fin (1 / 10),
      ''preferred_foot_Right'' \<mapsto> Fin (2 / 100)]"

fun is_filter :: "transform \<Rightarrow> bool" where
  "is_filter (Filter e) = True"
| "is_filter (Calculate e name) = False"

section \<open>Properties of the category deriver\<close>

lemma indexof_ge_minus_one: "- 1 \<le> indexof s sub"
  by (induction s) (auto simp: Let_def)

lemma indexof_nonneg_iff: "0 \<le> indexof s sub \<longleftrightarrow> sublist sub s"
proof (induction s)
  case Nil
  show ?case by simp
next
  case (Cons c cs)
  show ?case
  proof (cases "prefix sub (c # cs)")
    case True
    then show ?thesis by (simp add: sublist_Cons_right)
  next
    case False
    have "0 \<le> indexof (c # cs) sub \<longleftrightarrow> 0 \<le> indexof cs sub"
      using False by (simp add: Let_def)
    with Cons False show ?thesis by (simp add: sublist_Cons_right)
  qed
qed

text \<open>
  Claim C2. The rules are evaluated in order and the first match wins: a text that
  contains \<open>GK\<close> is a Goalkeeper; otherwise one that contains any of CB, LB, RB, RWB,
  LWB is a Defender; otherwise one that contains any of CM, CDM, CAM, RM, LM, RW, LW is
  a Midfielder; every other text is a Forward. Containment is that of a contiguous
  substring (\<open>sublist\<close>). The four examples of the specification follow.
\<close>

theorem deriveGroup_ordered_rules:
  "deriveGroup p =
     (if sublist ''GK'' p then ''Goalkeeper''
      else if sublist ''CB'' p \<or> sublist ''LB'' p \<or> sublist ''RB'' p
              \<or> sublist ''RWB'' p \<or> sublist ''LWB'' p then ''Defender''
      else if sublist ''CM'' p \<or> sublist ''CDM'' p \<or> sublist ''CAM'' p
              \<or> sublist ''RM'' p \<or> sublist ''LM'' p \<or> sublist ''RW'' p
              \<or> sublist ''LW'' p then ''Midfielder''
      else ''Forward'')
   \<and> deriveGroup ''GK'' = ''Goalkeeper''
   \<and> deriveGroup ''LB, LM'' = ''Defender''
   \<and> deriveGroup ''ST'' = ''Forward''
   \<and> deriveGroup ''CAM, RW'' = ''Midfielder''"
proof -
  have rules: "deriveGroup p =
     (if sublist ''GK'' p then ''Goalkeeper''
      else if sublist ''CB'' p \<or> sublist ''LB'' p \<or> sublist ''RB'' p
              \<or> sublist ''RWB'' p \<or> sublist ''LWB'' p then ''Defender''
      else if sublist ''CM'' p \<or> sublist ''CDM'' p \<or> sublist ''CAM'' p
              \<or> sublist ''RM'' p \<or> sublist ''LM'' p \<or> sublist ''RW'' p
              \<or> sublist ''LW'' p then ''Midfielder''
      else ''Forward'')"
    unfolding deriveGroup_def indexof_nonneg_iff by (rule refl)
  have e1: "deriveGroup ''GK'' = ''Goalkeeper''"
    by (simp add: deriveGroup_def)
  have e2: "deriveGroup ''LB, LM'' = ''Defender''"
    by (simp add: deriveGroup_def Let_def)
  have e3: "deriveGroup ''ST'' = ''Forward''"
    by (simp add: deriveGroup_def Let_def)
  have e4: "deriveGroup ''CAM, RW'' = ''Midfielder''"
    by (simp add: deriveGroup_def Let_def)
  from rules e1 e2 e3 e4 show ?thesis by blast
qed

theorem deriveGroup_ordered_rules_witness:
  "deriveGroup ''LWB, LW'' = ''Defender''"
proof -
  have a: "\<not> sublist ''GK'' ''LWB, LW''"
    by (simp add: sublist_Cons_right)
  have b: "sublist ''LWB'' ''LWB, LW''"
    by (simp add: sublist_Cons_right)
  from deriveGroup_ordered_rules [of "''LWB, LW''"] a b show ?thesis
    by (simp only: if_False if_True simp_thms)
qed


section \<open>Properties of the linear predictor\<close>

lemma jadd_zero_left: "jadd (Fin 0) v = v"
  by (cases v) simp_all

lemma or_zero_absent_or_NaN: "or_zero (m k) = absent_or_NaN_zero m k"
  by (auto simp: or_zero_def absent_or_NaN_zero_def split: option.splits)

lemma eta_sum:
  "eta m a r g f =
     jadd (jadd (jadd (jadd (or_zero (m ''Intercept''))
                            (jmul (or_zero (m ''age'')) (ToNumber a)))
                      (jmul (or_zero (m ''overall_rating'')) (ToNumber r)))
                (or_zero (m (''position_group_'' @ g))))
          (or_zero (m (''preferred_foot_'' @ f)))"
  by (simp add: eta_def Let_def jadd_zero_left age_term_def rating_term_def)

text \<open>
  Claim C1, as stated, fails. The claim reads every coefficient from the map and lets
  only an absent term contribute 0. With the map that holds \<open>NaN\<close> for
  \<open>Intercept\<close> and nothing else, the formula of the claim gives \<open>NaN\<close>, while the
  code, whose guard \<^verbatim>\<open>coefs["Intercept"] || 0\<close> replaces the \<open>NaN\<close> by 0, returns
  \<open>exp 0 * 1.08 = 1.08\<close>.
\<close>

theorem predict_formula_counterexample:
  "predict True (Fin (108 / 100)) [''Intercept'' \<mapsto> NaN] (JNum (Fin 24)) (JNum (Fin 85))
       ''Midfielder'' ''Right'' = Fin (108 / 100)
   \<and> spec_predict True (Fin (108 / 100)) [''Intercept'' \<mapsto> NaN] (JNum (Fin 24))
       (JNum (Fin 85)) ''Midfielder'' ''Right'' = NaN"
  by (simp add: predict_def eta_sum or_zero_def spec_predict_def spec_eta_def absent_zero_def)

text \<open>
  Claim C1, amended. For every coefficient map, every age, rating, position group and
  preferred foot, and every configuration, \<open>predict\<close> returns
  \<open>(if targetIsLog then exp eta else eta) * currencyRate\<close>, where \<open>eta\<close> is the sum
  of the intercept, the age coefficient times the age, the rating coefficient times the
  rating, the coefficient of the position group and the coefficient of the preferred
  foot, and where a term that is absent from the map, or whose entry is \<open>NaN\<close>,
  contributes 0.
\<close>

theorem predict_formula_amended:
  "predict targetIsLog currencyRate m a r g f =
     jmul (if targetIsLog
           then jexp (jadd (jadd (jadd (jadd (absent_or_NaN_zero m ''Intercept'')
                                 (jmul (absent_or_NaN_zero m ''age'') (ToNumber a)))
                           (jmul (absent_or_NaN_zero m ''overall_rating'') (ToNumber r)))
                     (absent_or_NaN_zero m (''position_group_'' @ g)))
               (absent_or_NaN_zero m (''preferred_foot_'' @ f)))
           else jadd (jadd (jadd (jadd (absent_or_NaN_zero m ''Intercept'')
                                 (jmul (absent_or_NaN_zero m ''age'') (ToNumber a)))
                           (jmul (absent_or_NaN_zero m ''overall_rating'') (ToNumber r)))
                     (absent_or_NaN_zero m (''position_group_'' @ g)))
               (absent_or_NaN_zero m (''preferred_foot_'' @ f)))
          currencyRate"
  by (simp add: predict_def eta_sum or_zero_absent_or_NaN Let_def)

text \<open>
  Claim C5. With no coefficient loaded, the prediction for whole-number age and rating
  is \<open>exp 0 * currencyRate\<close> when the target is a logarithm and \<open>0 * currencyRate\<close>
  otherwise, whatever the features are.
\<close>

theorem predict_empty_map:
  "predict True currencyRate Map.empty (JNum (Fin (of_int a))) (JNum (Fin (of_int r))) g f
     = jmul (Fin (exp 0)) currencyRate
   \<and> predict False currencyRate Map.empty (JNum (Fin (of_int a))) (JNum (Fin (of_int r))) g f
     = jmul (Fin 0) currencyRate"
  by (simp add: predict_def eta_sum or_zero_def)

section \<open>Rescaling a coefficient and its feature\<close>
























section \<open>The end-to-end scenario\<close>

lemma exp_ge_partial_sum:
  fixes u :: real
  assumes "0 \<le> u"
  shows "(\<Sum>i<n. u ^ i / fact i) \<le> exp u"
proof -
  from Maclaurin_exp_le [of u n] obtain t where
    e: "exp u = (\<Sum>i<n. u ^ i / fact i) + exp t / fact n * u ^ n" by blast
  have "0 \<le> exp t / fact n * u ^ n" using assms by simp
  with e show ?thesis by linarith
qed

lemma exp_le_partial_sum:
  fixes u :: real
  assumes "0 \<le> u" and "u \<le> 1"
  shows "exp u \<le> (\<Sum>i<n. u ^ i / fact i) + 3 * u ^ n / fact n"
proof -
  from Maclaurin_exp_le [of u n] obtain t where
    t: "\<bar>t\<bar> \<le> \<bar>u\<bar>" and
    e: "exp u = (\<Sum>i<n. u ^ i / fact i) + exp t / fact n * u ^ n" by blast
  from t assms have "t \<le> 1" by linarith
  then have "exp t \<le> exp 1" by simp
  also have "\<dots> \<le> 3" by (rule exp_le)
  finally have "exp t \<le> 3" .
  then have "exp t * (u ^ n / fact n) \<le> 3 * (u ^ n / fact n)"
    using assms by (intro mult_right_mono) simp_all
  with e show ?thesis by (simp add: field_simps)
qed

lemma partial_sum_1013_1600:
  "(\<Sum>i<12. (1013 / 1600 :: real) ^ i / fact i) \<ge> 18834872 / 10000000"
  "(\<Sum>i<12. (1013 / 1600 :: real) ^ i / fact i) + 3 * (1013 / 1600) ^ 12 / fact 12
     \<le> 18834873 / 10000000"
  by (simp_all add: eval_nat_numeral sum.lessThan_Suc fact_reduce)

lemma exp_1013_1600_bounds:
  "18834872 / 10000000 \<le> exp (1013 / 1600 :: real)"
  "exp (1013 / 1600 :: real) \<le> 18834873 / 10000000"
proof -
  have "18834872 / 10000000 \<le> (\<Sum>i<12. (1013 / 1600 :: real) ^ i / fact i)"
    by (rule partial_sum_1013_1600)
  also have "\<dots> \<le> exp (1013 / 1600)"
    by (rule exp_ge_partial_sum) simp
  finally show "18834872 / 10000000 \<le> exp (1013 / 1600 :: real)" .
  have "exp (1013 / 1600 :: real)
      \<le> (\<Sum>i<12. (1013 / 1600 :: real) ^ i / fact i) + 3 * (1013 / 1600) ^ 12 / fact 12"
    by (rule exp_le_partial_sum) simp_all
  also have "\<dots> \<le> 18834873 / 10000000"
    by (rule partial_sum_1013_1600)
  finally show "exp (1013 / 1600 :: real) \<le> 18834873 / 10000000" .
qed

lemma exp_1013_100_bounds:
  "250843 / 10 < exp (1013 / 100 :: real)" "exp (1013 / 100 :: real) < 250844 / 10"
proof -
  have split: "exp (1013 / 100 :: real) = exp (1013 / 1600) ^ 16"
    using exp_of_nat_mult [of 16 "1013 / 1600 :: real"] by simp
  have "(250843 / 10 :: real) < (18834872 / 10000000) ^ 16" by (simp add: power_divide)
  also have "\<dots> \<le> exp (1013 / 1600) ^ 16"
    by (rule power_mono [OF exp_1013_1600_bounds(1)]) simp
  finally show "250843 / 10 < exp (1013 / 100 :: real)" by (simp only: split)
  have "exp (1013 / 1600 :: real) ^ 16 \<le> (18834873 / 10000000) ^ 16"
    by (rule power_mono [OF exp_1013_1600_bounds(2)]) simp
  also have "\<dots> < 250844 / 10" by (simp add: power_divide)
  finally show "exp (1013 / 100 :: real) < 250844 / 10" by (simp only: split)
qed

lemma scenario_eta:
  "eta scenario_coefs (JNum (Fin 24)) (JNum (Fin 85)) ''Midfielder'' ''Right'' = Fin (1013 / 100)"
  by (simp add: eta_def age_term_def rating_term_def scenario_coefs_def or_zero_def Let_def)

lemma scenario_wage_eur:
  "jexp (eta scenario_coefs (JNum (Fin 24)) (JNum (Fin 85)) ''Midfielder'' ''Right'')
     = Fin (exp (1013 / 100))"
  by (simp only: scenario_eta jexp.simps)

lemma scenario_predict:
  "predict True (Fin (108 / 100)) scenario_coefs (JNum (Fin 24)) (JNum (Fin 85))
     ''Midfielder'' ''Right'' = Fin (exp (1013 / 100) * (108 / 100))"
  by (simp add: predict_def scenario_eta)

lemma scenario_usd_bounds:
  "(27091 :: real) < exp (1013 / 100) * (108 / 100)"
  "exp (1013 / 100) * (108 / 100) < (270912 / 10 :: real)"
  using exp_1013_100_bounds by simp_all

lemma scenario_rounds: "round_half_expand (exp (1013 / 100) * (108 / 100)) = 27091"
proof -
  let ?p = "exp (1013 / 100) * (108 / 100) :: real"
  have pos: "0 \<le> ?p" by simp
  have lo: "of_int 27091 \<le> ?p + 1 / 2" using scenario_usd_bounds(1) by linarith
  have hi: "?p + 1 / 2 < of_int 27091 + 1" using scenario_usd_bounds(2) by linarith
  have "\<lfloor>?p + 1 / 2\<rfloor> = 27091"
    using lo hi by (rule floor_unique)
  moreover have "\<bar>?p\<bar> = ?p" using pos by (rule abs_of_nonneg)
  ultimately show ?thesis by (simp only: round_half_expand_def nat_numeral)
qed

lemma digits_27091: "group3 (dec_digits 27091) = ''27,091''"
proof -
  have "dec_digits 27091 = ''27091''"
    by (simp add: dec_digits.simps digit_char_def)
  then show ?thesis
    by (simp add: group3.simps)
qed

lemma scenario_text:
  "fmtUSD (predictedUSD scenario_coefs (JNum (Fin 24)) (JNum (Fin 85)) ''Midfielder'' ''Right'')
     = ''$27,091''"
proof -
  let ?p = "exp (1013 / 100) * (108 / 100) :: real"
  have not_neg: "\<not> ?p < 0" by (simp add: not_less)
  have "predictedUSD scenario_coefs (JNum (Fin 24)) (JNum (Fin 85)) ''Midfielder'' ''Right''
      = Fin ?p"
    by (simp only: predictedUSD_def TARGET_IS_LOG_def USD_PER_EUR_def scenario_predict)
  moreover have "fmtUSD (Fin ?p) = toLocaleString_USD (Fin ?p)"
    by (simp only: fmtUSD_def isFinite.simps not_True_eq_False if_False)
  moreover have "toLocaleString_USD (Fin ?p) = ''$'' @ group3 (dec_digits 27091)"
    using not_neg by (simp only: toLocaleString_USD.simps scenario_rounds if_False append_Nil)
  ultimately show ?thesis by (simp only: digits_27091 append.simps)
qed

text \<open>
  Claim C4, as stated, fails. For the coefficients and features of the scenario the code
  computes \<open>eta = 10.13\<close>, as the claim says, but the euro wage \<open>exp 10.13\<close> is more
  than 95 above the 24989 of the claim, and the predicted value is more than 103 above
  its 26988.
\<close>

theorem scenario_counterexample:
  "jexp (eta scenario_coefs (JNum (Fin 24)) (JNum (Fin 85)) ''Midfielder'' ''Right'')
     = Fin (exp (1013 / 100))
   \<and> 95 < exp (1013 / 100) - (24989 :: real)
   \<and> predict True (Fin (108 / 100)) scenario_coefs (JNum (Fin 24)) (JNum (Fin 85))
       ''Midfielder'' ''Right'' = Fin (exp (1013 / 100) * (108 / 100))
   \<and> 103 < exp (1013 / 100) * (108 / 100) - (26988 :: real)"
proof -
  have b: "95 < exp (1013 / 100) - (24989 :: real)"
    using exp_1013_100_bounds(1) by linarith
  have c: "103 < exp (1013 / 100) * (108 / 100) - (26988 :: real)"
    using scenario_usd_bounds(1) by linarith
  from scenario_wage_eur b c scenario_predict show ?thesis by blast
qed

text \<open>
  Claim C4, amended. For the coefficients and features of the scenario, with the target
  a logarithm and the rate 1.08, the code computes \<open>eta = 10.13\<close>, a euro wage of
  \<open>exp 10.13\<close>, which lies between 25084.3 and 25084.4, and a predicted value
  between 27091 and 27091.2, which is displayed as \<^verbatim>\<open>$27,091\<close>.
\<close>

theorem scenario_amended:
  "eta scenario_coefs (JNum (Fin 24)) (JNum (Fin 85)) ''Midfielder'' ''Right'' = Fin (1013 / 100)
   \<and> jexp (eta scenario_coefs (JNum (Fin 24)) (JNum (Fin 85)) ''Midfielder'' ''Right'')
       = Fin (exp (1013 / 100))
   \<and> 250843 / 10 < exp (1013 / 100 :: real) \<and> exp (1013 / 100 :: real) < 250844 / 10
   \<and> predict True (Fin (108 / 100)) scenario_coefs (JNum (Fin 24)) (JNum (Fin 85))
       ''Midfielder'' ''Right'' = Fin (exp (1013 / 100) * (108 / 100))
   \<and> 27091 < exp (1013 / 100) * (108 / 100 :: real)
   \<and> exp (1013 / 100) * (108 / 100 :: real) < 270912 / 10
   \<and> fmtUSD (predictedUSD scenario_coefs (JNum (Fin 24)) (JNum (Fin 85))
       ''Midfielder'' ''Right'') = ''$27,091''"
  using scenario_eta scenario_wage_eur exp_1013_100_bounds scenario_predict
        scenario_usd_bounds scenario_text
  by blast

section \<open>Properties of the coefficient store\<close>

lemma foldl_store_other:
  "\<forall>d \<in> set ds. term_name d \<noteq> t \<Longrightarrow> foldl store_estimate m ds t = m t"
  by (induction ds arbitrary: m) (auto simp: store_estimate_def)

text \<open>
  Claim C3, as stated, fails. A resource whose only record has the term \<open>age\<close> and
  the estimate \<^verbatim>\<open>"abc"\<close> is loaded into the map that holds \<open>NaN\<close> for
  \<open>age\<close>: the estimate is coerced silently, and the result of the hook has no place
  for a condition.
\<close>

theorem useCoefficients_counterexample:
  "useCoefficients (Fetched [\<lparr>term_name = ''age'', estimate = JStr ''abc''\<rparr>]) ''age''
     = Some NaN"
proof -
  have "ToNumber (JStr ''abc'') = NaN" by code_simp
  then show ?thesis by (simp add: useCoefficients_def store_estimate_def)
qed

text \<open>
  Claim C3, amended. When the resource contains a record whose term is present (and is
  not \<^verbatim>\<open>__proto__\<close>), whose estimate does not convert to a number, and which no
  later record of the same term overrides, loading stores \<open>NaN\<close> under that term and
  raises no condition; the lookup \<^verbatim>\<open>coefs[term] || 0\<close> of the predictor then makes
  that term contribute 0, as an absent term does.
\<close>

theorem useCoefficients_stores_NaN:
  assumes "t \<noteq> ''__proto__''" and "ToNumber e = NaN"
    and "\<forall>d \<in> set post. term_name d \<noteq> t"
  shows "useCoefficients (Fetched (pre @ \<lparr>term_name = t, estimate = e\<rparr> # post)) t = Some NaN
       \<and> or_zero (useCoefficients (Fetched (pre @ \<lparr>term_name = t, estimate = e\<rparr> # post)) t)
           = Fin 0
       \<and> or_zero None = Fin 0"
  using assms by (simp add: useCoefficients_def foldl_store_other store_estimate_def or_zero_def)

theorem useCoefficients_stores_NaN_witness:
  "useCoefficients
      (Fetched ([\<lparr>term_name = ''Intercept'', estimate = JNum (Fin 6)\<rparr>]
                @ \<lparr>term_name = ''age'', estimate = JStr ''n/a''\<rparr> # [])) ''age'' = Some NaN
   \<and> or_zero (useCoefficients
      (Fetched ([\<lparr>term_name = ''Intercept'', estimate = JNum (Fin 6)\<rparr>]
                @ \<lparr>term_name = ''age'', estimate = JStr ''n/a''\<rparr> # [])) ''age'') = Fin 0"
proof -
  have a: "''age'' \<noteq> ''__proto__''" by simp
  have b: "ToNumber (JStr ''n/a'') = NaN" by code_simp
  have c: "\<forall>d \<in> set ([] :: coef_record list). term_name d \<noteq> ''age''" by simp
  from useCoefficients_stores_NaN
         [OF a b c, of "[\<lparr>term_name = ''Intercept'', estimate = JNum (Fin 6)\<rparr>]"]
  show ?thesis by blast
qed

section \<open>Properties of the display formatter\<close>

lemma is_digit_digit_char: "k < 10 \<Longrightarrow> is_digit (digit_char k)"
proof -
  assume "k < 10"
  then have "k \<in> {0, 1, 2, 3, 4, 5, 6, 7, 8, 9}" by auto
  then show ?thesis
    by (auto simp: is_digit_def digit_char_def)
qed

lemma dec_digits_digits: "dec_digits n \<noteq> [] \<and> list_all is_digit (dec_digits n)"
proof (induction n rule: dec_digits.induct)
  case (1 n)
  show ?case
  proof (cases "n < 10")
    case True
    then show ?thesis
      by (subst dec_digits.simps, subst dec_digits.simps) (simp add: is_digit_digit_char)
  next
    case False
    with "1" have ih: "dec_digits (n div 10) \<noteq> [] \<and> list_all is_digit (dec_digits (n div 10))"
      by simp
    have "is_digit (digit_char (n mod 10))" by (rule is_digit_digit_char) simp
    with ih False show ?thesis
      by (subst dec_digits.simps, subst dec_digits.simps) simp
  qed
qed

lemma group3_body:
  "list_all is_digit ds \<Longrightarrow> list_all (\<lambda>c. is_digit c \<or> c = CHR '','') (group3 ds)"
proof (induction ds rule: group3.induct)
  case (1 ds)
  show ?case
  proof (cases "length ds \<le> 3")
    case True
    with "1.prems" show ?thesis
      by (subst group3.simps) (auto simp: list_all_iff)
  next
    case False
    from "1.prems" have t: "list_all is_digit (take (length ds - 3) ds)"
      and d: "list_all is_digit (drop (length ds - 3) ds)"
      by (auto simp: list_all_iff dest: in_set_takeD in_set_dropD)
    from "1.IH" [OF False t] d False show ?thesis
      by (subst group3.simps) (auto simp: list_all_iff)
  qed
qed

lemma group3_nonempty: "ds \<noteq> [] \<Longrightarrow> group3 ds \<noteq> []"
  by (subst group3.simps) auto

lemma currency_text_Fin: "currency_text (fmtUSD (Fin v))"
proof -
  let ?body = "group3 (dec_digits (round_half_expand v))"
  have b: "?body \<noteq> []" and a: "list_all (\<lambda>c. is_digit c \<or> c = CHR '','') ?body"
    using dec_digits_digits group3_body group3_nonempty by blast+
  show ?thesis
    using a b by (simp add: fmtUSD_def currency_text_def)
qed

lemma fmtUSD_Fin_not_dash: "fmtUSD (Fin v) \<noteq> em_dash"
  by (simp add: fmtUSD_def em_dash_def)

text \<open>
  Claim C8. For every number that is not finite (\<open>NaN\<close>, \<open>Infinity\<close>,
  \<open>-Infinity\<close>) the formatter returns the em dash, and for every finite number it
  returns the formatted amount, which is a currency text and differs from the em dash.
  The predictor is a total function: every operation in its body is defined on every
  number and every text, so for every input its result is formatted to one of the two.
\<close>

theorem fmtUSD_marker_or_currency:
  "(\<not> isFinite n \<longrightarrow> fmtUSD n = em_dash)
   \<and> (isFinite n \<longrightarrow> fmtUSD n = toLocaleString_USD n \<and> currency_text (fmtUSD n)
                        \<and> fmtUSD n \<noteq> em_dash)
   \<and> (fmtUSD (predictedUSD m a r g f) = em_dash
        \<or> currency_text (fmtUSD (predictedUSD m a r g f)))"
proof -
  have 1: "\<not> isFinite n \<longrightarrow> fmtUSD n = em_dash"
    by (simp add: fmtUSD_def)
  have 2: "isFinite n \<longrightarrow> fmtUSD n = toLocaleString_USD n \<and> currency_text (fmtUSD n)
                        \<and> fmtUSD n \<noteq> em_dash"
    using currency_text_Fin fmtUSD_Fin_not_dash by (cases n) (simp_all add: fmtUSD_def)
  have 3: "fmtUSD v = em_dash \<or> currency_text (fmtUSD v)" for v
    using currency_text_Fin by (cases v) (simp_all add: fmtUSD_def)
  from 1 2 3 show ?thesis by blast
qed

theorem fmtUSD_marker_or_currency_witness:
  "fmtUSD PInf = em_dash \<and> fmtUSD NaN = em_dash \<and> fmtUSD NInf = em_dash
   \<and> fmtUSD (Fin (- 12345 / 10)) = ''-$1,235'' \<and> currency_text ''-$1,235''"
proof -
  have n: "\<not> isFinite PInf" "\<not> isFinite NaN" "\<not> isFinite NInf" by simp_all
  have f: "isFinite (Fin (- 12345 / 10))" by simp
  have v: "toLocaleString_USD (Fin (- 12345 / 10)) = ''-$1,235''"
    by code_simp
  from fmtUSD_marker_or_currency [of PInf] n have 1: "fmtUSD PInf = em_dash" by blast
  from fmtUSD_marker_or_currency [of NaN] n have 2: "fmtUSD NaN = em_dash" by blast
  from fmtUSD_marker_or_currency [of NInf] n have 3: "fmtUSD NInf = em_dash" by blast
  from fmtUSD_marker_or_currency [of "Fin (- 12345 / 10)"] f
  have 4: "fmtUSD (Fin (- 12345 / 10)) = toLocaleString_USD (Fin (- 12345 / 10))"
    and 5: "currency_text (fmtUSD (Fin (- 12345 / 10)))"
    by blast+
  from 4 v have 6: "fmtUSD (Fin (- 12345 / 10)) = ''-$1,235''" by (rule trans)
  from 5 have 7: "currency_text ''-$1,235''" unfolding 6 .
  from 1 2 3 6 7 show ?thesis by blast
qed

section \<open>Properties of the transform pipeline\<close>

lemma run_three:
  "run_transforms [t1, t2, t3] ds
     = apply_transform t3 (apply_transform t2 (apply_transform t1 ds))"
  by (simp add: run_transforms_def)

lemma run_two:
  "run_transforms [t1, t2] ds = apply_transform t2 (apply_transform t1 ds)"
  by (simp add: run_transforms_def)

text \<open>
  Claim C6. For every dataset and every filter text other than \<open>All\<close> (a literal text,
  as the options of the selector are), every row that the transforms of the histogram
  keep has the group equal to the filter. With the filter \<open>All\<close> the transforms keep
  every row: the rows after the filter stage are as many as before it, and as many as
  the dataset has.
\<close>

theorem filter_stage_keeps_group:
  "(literal_text p \<and> p \<noteq> ''All'' \<longrightarrow>
      (\<forall>d \<in> set (run_transforms (transform (wageHistSpec p)) rows).
         field_of d ''group'' = JStr p))
   \<and> length (run_transforms (transform (wageHistSpec ''All'')) rows)
       = length (run_transforms (butlast (transform (wageHistSpec ''All''))) rows)
   \<and> length (run_transforms (transform (wageHistSpec ''All'')) rows) = length rows"
proof -
  have sel: "field_of d ''group'' = JStr p"
    if "p \<noteq> ''All''" and "d \<in> set (run_transforms (transform (wageHistSpec p)) rows)" for d
  proof -
    from that have "truthy (filterExpr p d)"
      by (auto simp: wageHistSpec_def run_three)
    then have "loose_eq (field_of d ''group'') (JStr p)"
      using that(1) by (simp add: filterExpr_def)
    moreover from that have "\<exists>s. field_of d ''group'' = JStr s"
      by (auto simp: wageHistSpec_def run_three field_of_def calcGroupExpr_def wageUsdExpr_def)
    ultimately show ?thesis by auto
  qed
  have all: "run_transforms (transform (wageHistSpec ''All'')) rows
      = run_transforms (butlast (transform (wageHistSpec ''All''))) rows"
    by (simp add: wageHistSpec_def run_three run_two filterExpr_def)
  have len: "length (run_transforms (butlast (transform (wageHistSpec ''All''))) rows)
      = length rows"
    by (simp add: wageHistSpec_def run_two)
  from sel all len show ?thesis by auto
qed

theorem filter_stage_keeps_group_witness:
  "map (\<lambda>d. field_of d ''group'')
     (run_transforms (transform (wageHistSpec ''Defender''))
       [\<lparr>positions = ''LB, LM'', wage_euro = Fin 1000, calculated = Map.empty\<rparr>,
        \<lparr>positions = ''GK'', wage_euro = Fin 2000, calculated = Map.empty\<rparr>])
     = [JStr ''Defender'']
   \<and> literal_text ''Defender'' \<and> ''Defender'' \<noteq> ''All''
   \<and> list_all (\<lambda>d. field_of d ''group'' = JStr ''Defender'')
       (run_transforms (transform (wageHistSpec ''Defender''))
         [\<lparr>positions = ''LB, LM'', wage_euro = Fin 1000, calculated = Map.empty\<rparr>,
          \<lparr>positions = ''GK'', wage_euro = Fin 2000, calculated = Map.empty\<rparr>])"
proof -
  have a: "literal_text ''Defender''" by code_simp
  have b: "''Defender'' \<noteq> ''All''" by simp
  have c: "map (\<lambda>d. field_of d ''group'')
     (run_transforms (transform (wageHistSpec ''Defender''))
       [\<lparr>positions = ''LB, LM'', wage_euro = Fin 1000, calculated = Map.empty\<rparr>,
        \<lparr>positions = ''GK'', wage_euro = Fin 2000, calculated = Map.empty\<rparr>])
     = [JStr ''Defender'']"
    by (simp add: wageHistSpec_def run_three filterExpr_def field_of_def calcGroupExpr_def
          deriveGroup_def Let_def)
  from filter_stage_keeps_group [of "''Defender''"
      "[\<lparr>positions = ''LB, LM'', wage_euro = Fin 1000, calculated = Map.empty\<rparr>,
        \<lparr>positions = ''GK'', wage_euro = Fin 2000, calculated = Map.empty\<rparr>]"] a b
  have "\<forall>d \<in> set (run_transforms (transform (wageHistSpec ''Defender''))
         [\<lparr>positions = ''LB, LM'', wage_euro = Fin 1000, calculated = Map.empty\<rparr>,
          \<lparr>positions = ''GK'', wage_euro = Fin 2000, calculated = Map.empty\<rparr>]).
        field_of d ''group'' = JStr ''Defender''"
    by blast
  then have d: "list_all (\<lambda>d. field_of d ''group'' = JStr ''Defender'')
       (run_transforms (transform (wageHistSpec ''Defender''))
         [\<lparr>positions = ''LB, LM'', wage_euro = Fin 1000, calculated = Map.empty\<rparr>,
          \<lparr>positions = ''GK'', wage_euro = Fin 2000, calculated = Map.empty\<rparr>])"
    by (simp add: list_all_iff)
  from a b c d show ?thesis by blast
qed

text \<open>
  Claim C10. The box chart does not depend on the filter of the position group: for
  every state and every filter, the description of the box chart is the same, its
  transforms are the derivation of the group and the conversion of the wage and no
  filter, and the rows it summarises are the rows of the dataset with these two fields
  added. The coefficient chart and the displayed prediction do not depend on the filter
  either, so a change of the filter reaches the histogram only.
\<close>

theorem box_chart_ignores_posFilter:
  "box_chart (App (st\<lparr>posFilter := p\<rparr>)) = box_chart (App st)
   \<and> transform (box_chart (App st))
       = [Calculate calcGroupExpr ''group'', Calculate wageUsdExpr ''wage_usd'']
   \<and> filter is_filter (transform (box_chart (App st))) = []
   \<and> run_transforms (transform (box_chart (App (st\<lparr>posFilter := p\<rparr>)))) rows
       = map (\<lambda>d. d\<lparr>calculated := (calculated d)(''group'' \<mapsto> calcGroupExpr d,
                                                     ''wage_usd'' \<mapsto> wageUsdExpr d)\<rparr>) rows
   \<and> coef_chart (App (st\<lparr>posFilter := p\<rparr>)) = coef_chart (App st)
   \<and> predicted_text (App (st\<lparr>posFilter := p\<rparr>)) = predicted_text (App st)"
  by (simp add: App_def boxSpec_def run_two wageUsdExpr_def calcGroupExpr_def)

end
